theory Spec2Isabelle
  imports Complex_Main
begin

section \<open>Values, exceptions and requests\<close>

text \<open>
  Python numbers (the floats of the request, the provider's statistics, the integer
  defaults) are embedded in the reals; rounding plays no part in app.py, which only
  compares and copies them.  An \<open>Optional[int]\<close> field is an \<open>int option\<close>.
\<close>

datatype pyval = Num real | Str string | NoneVal

fun opt_int :: "int option \<Rightarrow> pyval" where
  "opt_int None = NoneVal"
| "opt_int (Some i) = Num (of_int i)"

text \<open>
  The exceptions that can travel through app.py.  \<open>HTTPException\<close> carries status code
  and detail; the others are the library errors caught by the blanket handlers
  (\<open>ImageError\<close> stands for any error of the image library while it loads, converts,
  resamples or encodes).
\<close>

datatype exc =
    HTTPException nat string
  | TypeError
  | OverflowError
  | ValueError
  | EEException string
  | RequestException string
  | ImageError string

record LocationRequest =
  latitude :: real
  longitude :: real
  buffer_distance :: "int option"
  days_back :: "int option"
  cloud_threshold :: "int option"
  image_width :: "int option"
  image_height :: "int option"

record NDVIResponse =
  status :: string
  message :: string
  location :: "string \<rightharpoonup> pyval"
  ndvi_stats :: "(string \<rightharpoonup> pyval) option"

section \<open>Earth Engine expressions\<close>

text \<open>
  Earth Engine objects are built lazily on the client: every method call of lines 44-67
  only extends an expression.  The expressions are kept as syntax trees, so that a
  remote call records exactly which expression was sent.
\<close>

datatype geometry =
    Geometry_Point "real list"
  | buffer geometry "int option"
  | bounds geometry

datatype ee_filter = Filter_lt string "int option"

datatype image_collection =
    ImageCollection string
  | filterBounds image_collection geometry
  | filterDate image_collection string string
  | filter_by image_collection ee_filter

datatype image =
    median image_collection
  | clip image geometry
  | normalizedDifference image "string list"
  | rename image string

datatype reducer =
    Reducer_mean
  | Reducer_minMax
  | Reducer_stdDev
  | combine reducer reducer bool

record vis_params =
  vis_min :: real
  vis_max :: real
  vis_palette :: "string list"
  vis_dimensions :: string
  vis_format :: string

section \<open>Images and byte streams\<close>

datatype resampling = NEAREST | BILINEAR | BICUBIC | LANCZOS

text \<open>Pixel data is symbolic: what was decoded, and which operations were applied.\<close>

datatype raster =
    Decoded string
  | Converted raster string
  | Resampled raster "int \<times> int" resampling

record pil_image =
  img_mode :: string
  img_size :: "int \<times> int"
  img_pixels :: raster

datatype encoded = JPEG pil_image nat

record bytes_io =
  stream_data :: encoded
  stream_pos :: nat

record streaming_response =
  body :: bytes_io
  media_type :: string
  headers :: "(string \<times> string) list"

section \<open>The world outside app.py\<close>

text \<open>
  Every call that leaves the process is logged.  The log is what the claims about
  "before any remote call" and "before compositing" are stated on.
\<close>

datatype remote_call =
    size_getInfo image_collection
  | bandNames_getInfo image
  | reduceRegion_getInfo image reducer geometry int real
  | getThumbURL image vis_params
  | requests_get string nat

text \<open>
  The collaborators are parameters: the system date, the rendering of dates, numbers,
  dictionaries and exceptions as text, the imagery provider's answers, the HTTP fetch
  and the image decoder.  A provider or library failure is \<open>Inl\<close> of its message.
  The provider's statistics are a dictionary from reducer output names to values; a name
  may be absent, and a name that is present may carry a number or \<open>None\<close>.  The three
  fault fields say when the image library raises while it converts, resamples or encodes
  an image (a truncated file, exhausted memory, a side above the encoder's limit):
  \<open>Some\<close> of the message when it does.
\<close>

record env =
  today :: int
  isoformat :: "int \<Rightarrow> string"
  str_exc :: "exc \<Rightarrow> string"
  str_float :: "real \<Rightarrow> string"
  str_dict :: "(string \<rightharpoonup> pyval) \<Rightarrow> string"
  ee_size :: "image_collection \<Rightarrow> string + nat"
  ee_bandNames :: "image \<Rightarrow> string + string list"
  ee_reduceRegion :: "image \<Rightarrow> reducer \<Rightarrow> geometry \<Rightarrow> int \<Rightarrow> real \<Rightarrow> string + (string \<rightharpoonup> pyval)"
  ee_getThumbURL :: "image \<Rightarrow> vis_params \<Rightarrow> string + string"
  http_get :: "string \<Rightarrow> nat \<Rightarrow> string + string"
  Image_open :: "string \<Rightarrow> string + pil_image"
  convert_fault :: "pil_image \<Rightarrow> string \<Rightarrow> string option"
  resize_fault :: "pil_image \<Rightarrow> int \<times> int \<Rightarrow> resampling \<Rightarrow> string option"
  save_fault :: "pil_image \<Rightarrow> nat \<Rightarrow> string option"

type_synonym 'a outcome = "(exc + 'a) \<times> remote_call list"

section \<open>Helper functions of app.py\<close>

text \<open>
  \<open>end - datetime.timedelta(days=days_back)\<close> on date ordinals (line 49): \<open>None\<close> is a
  TypeError, a magnitude above 999999999 or a date outside years 1..9999 an
  OverflowError.
\<close>

definition date_minus_days :: "int \<Rightarrow> int option \<Rightarrow> exc + int" where
  "date_minus_days end_date d =
     (case d of
        None \<Rightarrow> Inl TypeError
      | Some n \<Rightarrow>
          if \<bar>n\<bar> > 999999999 then Inl OverflowError
          else if end_date - n < 1 \<or> end_date - n > 3652059 then Inl OverflowError
          else Inr (end_date - n))"

text \<open>Lines 70-75: the combined reducer.\<close>

definition stats_reducer :: reducer where
  "stats_reducer =
     combine Reducer_mean (combine Reducer_minMax Reducer_stdDev True) True"

text \<open>Lines 82-88: the visualization parameters.\<close>

definition the_vis_params :: vis_params where
  "the_vis_params =
     \<lparr> vis_min = 0.0, vis_max = 1.0,
       vis_palette = [''red'', ''orange'', ''yellow'', ''green'', ''darkgreen''],
       vis_dimensions = ''800x600'',
       vis_format = ''png'' \<rparr>"

text \<open>Lines 44-45, 52-55, 60 and 67: the expressions built on the client.\<close>

definition aoi_of :: "real \<Rightarrow> real \<Rightarrow> int option \<Rightarrow> geometry" where
  "aoi_of lat lon buffer_dist = bounds (buffer (Geometry_Point [lon, lat]) buffer_dist)"

definition s2_collection_of :: "geometry \<Rightarrow> string \<Rightarrow> string \<Rightarrow> int option \<Rightarrow> image_collection" where
  "s2_collection_of aoi start_iso end_iso cloud =
     filter_by
       (filterDate (filterBounds (ImageCollection ''COPERNICUS/S2_HARMONIZED'') aoi)
          start_iso end_iso)
       (Filter_lt ''CLOUDY_PIXEL_PERCENTAGE'' cloud)"

definition s2_of :: "image_collection \<Rightarrow> geometry \<Rightarrow> image" where
  "s2_of s2_collection aoi = clip (median s2_collection) aoi"

definition ndvi_of :: "image \<Rightarrow> image" where
  "ndvi_of s2 = rename (normalizedDifference s2 [''B8'', ''B4'']) ''NDVI''"

text \<open>Lines 43-93: the body of the \<open>try\<close> block of \<open>get_ndvi_image_url\<close>.\<close>

definition get_ndvi_image_url_try ::
  "env \<Rightarrow> real \<Rightarrow> real \<Rightarrow> int option \<Rightarrow> int option \<Rightarrow> int option
     \<Rightarrow> (string \<times> (string \<rightharpoonup> pyval)) outcome" where
  "get_ndvi_image_url_try E lat lon buffer_dist days cloud =
    (let aoi = aoi_of lat lon buffer_dist;
         end_date = today E
     in case date_minus_days end_date days of
          Inl e \<Rightarrow> (Inl e, [])
        | Inr start \<Rightarrow>
           (let s2_collection =
                  s2_collection_of aoi (isoformat E start) (isoformat E end_date) cloud;
                t1 = [size_getInfo s2_collection]
            in case ee_size E s2_collection of
                 Inl m \<Rightarrow> (Inl (EEException m), t1)
               | Inr n \<Rightarrow>
                  if n = 0 then
                    (Inl (HTTPException 404
                       ''No suitable Sentinel-2 images found for the specified criteria''), t1)
                  else
                   (let s2 = s2_of s2_collection aoi;
                        t2 = t1 @ [bandNames_getInfo s2]
                    in case ee_bandNames E s2 of
                         Inl m \<Rightarrow> (Inl (EEException m), t2)
                       | Inr band_names \<Rightarrow>
                          if ''B8'' \<notin> set band_names \<or> ''B4'' \<notin> set band_names then
                            (Inl (HTTPException 400
                               ''Required bands (B4 and B8) not found in the image''), t2)
                          else
                           (let ndvi = ndvi_of s2;
                                t3 = t2 @ [reduceRegion_getInfo ndvi stats_reducer aoi 10 (10 ^ 9)]
                            in case ee_reduceRegion E ndvi stats_reducer aoi 10 (10 ^ 9) of
                                 Inl m \<Rightarrow> (Inl (EEException m), t3)
                               | Inr stats \<Rightarrow>
                                  (let vp = the_vis_params;
                                       t4 = t3 @ [getThumbURL ndvi vp]
                                   in case ee_getThumbURL E ndvi vp of
                                        Inl m \<Rightarrow> (Inl (EEException m), t4)
                                      | Inr image_url \<Rightarrow> (Inr (image_url, stats), t4))))))"

text \<open>
  Lines 95-96: \<open>except Exception as e\<close> catches every exception of the block,
  \<open>HTTPException\<close> included, and raises status 500 with the text of the caught one.
\<close>

definition get_ndvi_image_url ::
  "env \<Rightarrow> real \<Rightarrow> real \<Rightarrow> int option \<Rightarrow> int option \<Rightarrow> int option
     \<Rightarrow> (string \<times> (string \<rightharpoonup> pyval)) outcome" where
  "get_ndvi_image_url E lat lon buffer_dist days cloud =
    (case get_ndvi_image_url_try E lat lon buffer_dist days cloud of
       (Inl e, t) \<Rightarrow> (Inl (HTTPException 500 (''Error processing NDVI: '' @ str_exc E e)), t)
     | (Inr r, t) \<Rightarrow> (Inr r, t))"

text \<open>
  The three image operations of lines 109, 113 and 117.  \<open>convert\<close> changes the colour
  model and keeps the size.  \<open>resize\<close> resamples to the requested size; it refuses a
  missing side (TypeError), a side that does not fit a signed 32-bit integer
  (OverflowError) and a side below 1 (ValueError).  \<open>save_jpeg\<close> encodes the image.  Each
  of them fails when the library faults.
\<close>

definition convert :: "env \<Rightarrow> pil_image \<Rightarrow> string \<Rightarrow> exc + pil_image" where
  "convert E img m =
     (case convert_fault E img m of
        Some msg \<Rightarrow> Inl (ImageError msg)
      | None \<Rightarrow> Inr (img\<lparr> img_mode := m, img_pixels := Converted (img_pixels img) m \<rparr>))"

definition resize ::
  "env \<Rightarrow> pil_image \<Rightarrow> int option \<times> int option \<Rightarrow> resampling \<Rightarrow> exc + pil_image" where
  "resize E img sz flt =
     (case sz of
        (Some w, Some h) \<Rightarrow>
          if w < - (2 ^ 31) \<or> 2 ^ 31 \<le> w \<or> h < - (2 ^ 31) \<or> 2 ^ 31 \<le> h then Inl OverflowError
          else if w < 1 \<or> h < 1 then Inl ValueError
          else (case resize_fault E img (w, h) flt of
                  Some msg \<Rightarrow> Inl (ImageError msg)
                | None \<Rightarrow>
                    Inr (img\<lparr> img_size := (w, h),
                              img_pixels := Resampled (img_pixels img) (w, h) flt \<rparr>))
      | _ \<Rightarrow> Inl TypeError)"

definition save_jpeg :: "env \<Rightarrow> pil_image \<Rightarrow> nat \<Rightarrow> exc + encoded" where
  "save_jpeg E img quality =
     (case save_fault E img quality of
        Some msg \<Rightarrow> Inl (ImageError msg)
      | None \<Rightarrow> Inr (JPEG img quality))"

text \<open>\<open>img.size != (width, height)\<close>: a tuple of integers against the requested pair.\<close>

definition size_differs :: "int \<times> int \<Rightarrow> int option \<times> int option \<Rightarrow> bool" where
  "size_differs s sz \<longleftrightarrow> (Some (fst s), Some (snd s)) \<noteq> sz"

text \<open>Lines 101-120: the body of the \<open>try\<close> block of \<open>download_and_convert_image\<close>.\<close>

definition download_and_convert_image_try ::
  "env \<Rightarrow> string \<Rightarrow> int option \<Rightarrow> int option \<Rightarrow> bytes_io outcome" where
  "download_and_convert_image_try E image_url width height =
    (let t = [requests_get image_url 30]
     in case http_get E image_url 30 of
          Inl m \<Rightarrow> (Inl (RequestException m), t)
        | Inr content \<Rightarrow>
           (case Image_open E content of
              Inl m \<Rightarrow> (Inl (ImageError m), t)
            | Inr img0 \<Rightarrow>
               (case (if img_mode img0 \<noteq> ''RGB'' then convert E img0 ''RGB''
                      else Inr img0) of
                  Inl e \<Rightarrow> (Inl e, t)
                | Inr img1 \<Rightarrow>
                   (case (if size_differs (img_size img1) (width, height)
                          then resize E img1 (width, height) LANCZOS
                          else Inr img1) of
                      Inl e \<Rightarrow> (Inl e, t)
                    | Inr img2 \<Rightarrow>
                       (case save_jpeg E img2 95 of
                          Inl e \<Rightarrow> (Inl e, t)
                        | Inr data \<Rightarrow>
                            (Inr \<lparr> stream_data = data, stream_pos = 0 \<rparr>, t))))))"

text \<open>Lines 122-123: every failure of the block becomes status 500.\<close>

definition download_and_convert_image ::
  "env \<Rightarrow> string \<Rightarrow> int option \<Rightarrow> int option \<Rightarrow> bytes_io outcome" where
  "download_and_convert_image E image_url width height =
    (case download_and_convert_image_try E image_url width height of
       (Inl e, t) \<Rightarrow> (Inl (HTTPException 500 (''Error processing image: '' @ str_exc E e)), t)
     | (Inr r, t) \<Rightarrow> (Inr r, t))"

section \<open>The endpoints\<close>

text \<open>
  Lines 166-169 and 223-226: an \<open>HTTPException\<close> is raised again unchanged, any other
  exception becomes status 500.
\<close>

definition endpoint_handler :: "env \<Rightarrow> 'a outcome \<Rightarrow> 'a outcome" where
  "endpoint_handler E r =
    (case r of
       (Inl (HTTPException c d), t) \<Rightarrow> (Inl (HTTPException c d), t)
     | (Inl e, t) \<Rightarrow> (Inl (HTTPException 500 (''Internal server error: '' @ str_exc E e)), t)
     | (Inr v, t) \<Rightarrow> (Inr v, t))"

text \<open>Lines 138-164.\<close>

definition generate_ndvi_image_try :: "env \<Rightarrow> LocationRequest \<Rightarrow> streaming_response outcome" where
  "generate_ndvi_image_try E request =
    (if \<not> (-90 \<le> latitude request \<and> latitude request \<le> 90) then
       (Inl (HTTPException 400 ''Invalid latitude. Must be between -90 and 90''), [])
     else if \<not> (-180 \<le> longitude request \<and> longitude request \<le> 180) then
       (Inl (HTTPException 400 ''Invalid longitude. Must be between -180 and 180''), [])
     else
       case get_ndvi_image_url E (latitude request) (longitude request)
              (buffer_distance request) (days_back request) (cloud_threshold request) of
         (Inl e, t) \<Rightarrow> (Inl e, t)
       | (Inr (image_url, stats), t) \<Rightarrow>
          (case download_and_convert_image E image_url
                  (image_width request) (image_height request) of
             (Inl e, t') \<Rightarrow> (Inl e, t @ t')
           | (Inr jpeg_image, t') \<Rightarrow>
               (Inr \<lparr> body = jpeg_image,
                      media_type = ''image/jpeg'',
                      headers =
                        [(''Content-Disposition'',
                          ''inline; filename=ndvi_'' @ str_float E (latitude request) @ ''_''
                            @ str_float E (longitude request) @ ''.jpg''),
                         (''X-NDVI-Stats'', str_dict E stats)] \<rparr>,
                t @ t')))"

definition generate_ndvi_image :: "env \<Rightarrow> LocationRequest \<Rightarrow> streaming_response outcome" where
  "generate_ndvi_image E request = endpoint_handler E (generate_ndvi_image_try E request)"

text \<open>\<open>d.get(k, default)\<close> on a dictionary.\<close>

definition dict_get :: "('k \<rightharpoonup> 'v) \<Rightarrow> 'k \<Rightarrow> 'v \<Rightarrow> 'v" where
  "dict_get d k dflt = (case d k of None \<Rightarrow> dflt | Some v \<Rightarrow> v)"

text \<open>Lines 192-203: the placeholder and the chain of comparisons that overwrites it.\<close>

definition health_status_of :: "real \<Rightarrow> string" where
  "health_status_of mean_ndvi =
    (let health_status = ''Unknown''
     in if mean_ndvi < 0.2 then ''Severe Stress / Bare Soil''
        else if mean_ndvi < 0.4 then ''Stressed Vegetation''
        else if mean_ndvi < 0.6 then ''Moderate Health''
        else if mean_ndvi < 0.8 then ''Healthy''
        else ''Very Healthy'')"

text \<open>
  Line 194 on a value of the statistics dictionary: comparing a number with a threshold
  goes through the chain, comparing \<open>None\<close> or a string raises TypeError.
\<close>

definition health_status_py :: "pyval \<Rightarrow> exc + string" where
  "health_status_py mean_ndvi =
     (case mean_ndvi of
        Num m \<Rightarrow> Inr (health_status_of m)
      | Str s \<Rightarrow> Inl TypeError
      | NoneVal \<Rightarrow> Inl TypeError)"

text \<open>Lines 175-221.\<close>

definition get_ndvi_stats_try :: "env \<Rightarrow> LocationRequest \<Rightarrow> NDVIResponse outcome" where
  "get_ndvi_stats_try E request =
    (if \<not> (-90 \<le> latitude request \<and> latitude request \<le> 90) then
       (Inl (HTTPException 400 ''Invalid latitude. Must be between -90 and 90''), [])
     else if \<not> (-180 \<le> longitude request \<and> longitude request \<le> 180) then
       (Inl (HTTPException 400 ''Invalid longitude. Must be between -180 and 180''), [])
     else
       case get_ndvi_image_url E (latitude request) (longitude request)
              (buffer_distance request) (days_back request) (cloud_threshold request) of
         (Inl e, t) \<Rightarrow> (Inl e, t)
       | (Inr (image_url, stats), t) \<Rightarrow>
          (let mean_ndvi = dict_get stats ''NDVI_mean'' (Num 0)
           in case health_status_py mean_ndvi of
                Inl e \<Rightarrow> (Inl e, t)
              | Inr health_status \<Rightarrow>
                 (Inr \<lparr> status = ''success'',
                        message = ''NDVI analysis completed successfully'',
                        location =
                          [''latitude'' \<mapsto> Num (latitude request),
                           ''longitude'' \<mapsto> Num (longitude request),
                           ''buffer_distance_m'' \<mapsto> opt_int (buffer_distance request)],
                        ndvi_stats = Some
                          [''mean_ndvi'' \<mapsto> mean_ndvi,
                           ''min_ndvi'' \<mapsto> dict_get stats ''NDVI_min'' (Num 0),
                           ''max_ndvi'' \<mapsto> dict_get stats ''NDVI_max'' (Num 0),
                           ''std_ndvi'' \<mapsto> dict_get stats ''NDVI_stdDev'' (Num 0),
                           ''health_status'' \<mapsto> Str health_status,
                           ''analysis_period_days'' \<mapsto> opt_int (days_back request)] \<rparr>,
                  t)))"

definition get_ndvi_stats :: "env \<Rightarrow> LocationRequest \<Rightarrow> NDVIResponse outcome" where
  "get_ndvi_stats E request = endpoint_handler E (get_ndvi_stats_try E request)"

section \<open>Auxiliary definitions for the statements\<close>

text \<open>Recognises the zonal reduction among the logged calls.\<close>

fun is_reduceRegion :: "remote_call \<Rightarrow> bool" where
  "is_reduceRegion (reduceRegion_getInfo im red g sc mp) = True"
| "is_reduceRegion _ = False"

text \<open>
  A concrete collaborator and request on which the theorems are exercised: three scenes,
  all bands, four statistics, a palette image of 800 by 600 pixels behind the thumbnail
  address, an encoder that refuses a side above 65500.  The variants change one answer
  each.
\<close>

definition fixture_env :: env where
  "fixture_env =
     \<lparr> today = 739923,
       isoformat = (\<lambda>n. if n = 739923 then ''2026-11-03'' else ''2026-08-05''),
       str_exc = (\<lambda>e. case e of
                        HTTPException c d \<Rightarrow>
                          (if c = 404 then ''404: '' else if c = 400 then ''400: '' else ''500: '') @ d
                      | EEException m \<Rightarrow> m
                      | RequestException m \<Rightarrow> m
                      | ImageError m \<Rightarrow> m
                      | _ \<Rightarrow> ''error''),
       str_float = (\<lambda>x. ''0.0''),
       str_dict = (\<lambda>d. ''{}''),
       ee_size = (\<lambda>c. Inr 3),
       ee_bandNames = (\<lambda>i. Inr [''B2'', ''B3'', ''B4'', ''B8'']),
       ee_reduceRegion = (\<lambda>i r g s m. Inr [''NDVI_mean'' \<mapsto> Num 0.5, ''NDVI_min'' \<mapsto> Num 0.1,
                                             ''NDVI_max'' \<mapsto> Num 0.9, ''NDVI_stdDev'' \<mapsto> Num 0.2]),
       ee_getThumbURL = (\<lambda>i v. Inr ''https://provider.example/thumb''),
       http_get = (\<lambda>u t. Inr ''png''),
       Image_open = (\<lambda>c. Inr \<lparr> img_mode = ''P'', img_size = (800, 600),
                                   img_pixels = Decoded c \<rparr>),
       convert_fault = (\<lambda>i m. None),
       resize_fault = (\<lambda>i s f. None),
       save_fault = (\<lambda>i q. if 65500 < fst (img_size i) \<or> 65500 < snd (img_size i)
                              then Some ''encoder error'' else None) \<rparr>"

definition fixture_env_empty :: env where
  "fixture_env_empty = fixture_env\<lparr> ee_size := (\<lambda>c. Inr 0) \<rparr>"

definition fixture_env_no_nir :: env where
  "fixture_env_no_nir = fixture_env\<lparr> ee_bandNames := (\<lambda>i. Inr [''B2'', ''B3'', ''B4'']) \<rparr>"

definition fixture_env_sparse :: env where
  "fixture_env_sparse =
     fixture_env\<lparr> ee_reduceRegion := (\<lambda>i r g s m. Inr [''NDVI_max'' \<mapsto> Num 0.9]) \<rparr>"

definition fixture_env_null_mean :: env where
  "fixture_env_null_mean =
     fixture_env\<lparr> ee_reduceRegion :=
       (\<lambda>i r g s m. Inr [''NDVI_mean'' \<mapsto> NoneVal, ''NDVI_min'' \<mapsto> NoneVal,
                        ''NDVI_max'' \<mapsto> NoneVal, ''NDVI_stdDev'' \<mapsto> NoneVal]) \<rparr>"

definition fixture_env_null_min :: env where
  "fixture_env_null_min =
     fixture_env\<lparr> ee_reduceRegion :=
       (\<lambda>i r g s m. Inr [''NDVI_mean'' \<mapsto> Num 0.5, ''NDVI_min'' \<mapsto> NoneVal,
                        ''NDVI_max'' \<mapsto> Num 0.9, ''NDVI_stdDev'' \<mapsto> Num 0.2]) \<rparr>"

definition fixture_request :: LocationRequest where
  "fixture_request =
     \<lparr> latitude = 40, longitude = -100, buffer_distance = Some 50, days_back = Some 90,
       cloud_threshold = Some 20, image_width = Some 800, image_height = Some 600 \<rparr>"

section \<open>Shared lemmas\<close>

lemmas helper_defs = get_ndvi_image_url_def get_ndvi_image_url_try_def Let_def

lemmas download_defs = download_and_convert_image_def download_and_convert_image_try_def
  size_differs_def resize_def convert_def save_jpeg_def Let_def

lemmas stats_defs = get_ndvi_stats_def get_ndvi_stats_try_def endpoint_handler_def
  health_status_py_def

lemmas fixture_defs = fixture_env_def fixture_env_empty_def fixture_env_no_nir_def
  fixture_env_sparse_def fixture_env_null_mean_def fixture_env_null_min_def
  fixture_request_def

lemmas eval_defs = helper_defs download_defs stats_defs generate_ndvi_image_def
  generate_ndvi_image_try_def date_minus_days_def dict_get_def

lemma get_ndvi_image_url_fails_500:
  "get_ndvi_image_url E lat lon b d c = (Inl e, t) \<Longrightarrow> \<exists>m. e = HTTPException 500 m"
  unfolding helper_defs by (auto split: sum.splits if_splits)

lemma get_ndvi_image_url_thumb:
  "getThumbURL im vp \<in> set (snd (get_ndvi_image_url E lat lon b d c)) \<Longrightarrow> vp = the_vis_params"
  unfolding helper_defs by (auto split: sum.splits if_splits)

lemma download_fails_500:
  "download_and_convert_image E u w h = (Inl e, t) \<Longrightarrow> \<exists>m. e = HTTPException 500 m"
  unfolding download_and_convert_image_def by (auto split: sum.splits prod.splits)

lemma download_log:
  "snd (download_and_convert_image E u w h) = [requests_get u 30]"
  unfolding download_and_convert_image_def download_and_convert_image_try_def Let_def
  by (auto split: sum.splits prod.splits)


text \<open>The calls logged by the image endpoint.\<close>

lemma generate_log:
  "snd (generate_ndvi_image E r) =
     (if \<not> (-90 \<le> latitude r \<and> latitude r \<le> 90) \<or> \<not> (-180 \<le> longitude r \<and> longitude r \<le> 180)
      then []
      else case get_ndvi_image_url E (latitude r) (longitude r) (buffer_distance r)
                  (days_back r) (cloud_threshold r) of
             (Inl e, t) \<Rightarrow> t
           | (Inr (url, stats), t) \<Rightarrow> t @ [requests_get url 30])"
  unfolding generate_ndvi_image_def generate_ndvi_image_try_def endpoint_handler_def
  using download_log
  by (auto split: sum.splits prod.splits exc.splits
        dest: download_fails_500 get_ndvi_image_url_fails_500 simp: prod_eq_iff)

text \<open>A successful statistics response, in full.\<close>

lemma get_ndvi_stats_success:
  assumes "get_ndvi_stats E r = (Inr resp, t)"
  shows "\<exists>url stats m.
           get_ndvi_image_url E (latitude r) (longitude r) (buffer_distance r) (days_back r)
             (cloud_threshold r) = (Inr (url, stats), t)
           \<and> dict_get stats ''NDVI_mean'' (Num 0) = Num m
           \<and> resp =
              \<lparr> status = ''success'',
                message = ''NDVI analysis completed successfully'',
                location =
                  [''latitude'' \<mapsto> Num (latitude r),
                   ''longitude'' \<mapsto> Num (longitude r),
                   ''buffer_distance_m'' \<mapsto> opt_int (buffer_distance r)],
                ndvi_stats = Some
                  [''mean_ndvi'' \<mapsto> Num m,
                   ''min_ndvi'' \<mapsto> dict_get stats ''NDVI_min'' (Num 0),
                   ''max_ndvi'' \<mapsto> dict_get stats ''NDVI_max'' (Num 0),
                   ''std_ndvi'' \<mapsto> dict_get stats ''NDVI_stdDev'' (Num 0),
                   ''health_status'' \<mapsto> Str (health_status_of m),
                   ''analysis_period_days'' \<mapsto> opt_int (days_back r)] \<rparr>"
  using assms unfolding stats_defs Let_def
  by (auto split: if_splits prod.splits sum.splits exc.splits pyval.splits)


text \<open>The fixtures, evaluated.\<close>

lemma fixture_stats_succeeds:
  "\<exists>resp t. get_ndvi_stats fixture_env fixture_request = (Inr resp, t)"
  by (simp add: eval_defs fixture_defs)

lemma fixture_sparse_stats_succeeds:
  "\<exists>resp t. get_ndvi_stats fixture_env_sparse fixture_request = (Inr resp, t)"
  by (simp add: eval_defs fixture_defs)

lemma fixture_sparse_helper:
  "fst (get_ndvi_image_url fixture_env_sparse 40 (-100) (Some 50) (Some 90) (Some 20)) =
     Inr (''https://provider.example/thumb'', [''NDVI_max'' \<mapsto> Num 0.9])"
  by (simp add: eval_defs fixture_defs)

section \<open>Health classification\<close>

text \<open>
  C1.  The health label is a total function of the mean NDVI: below 0.2 it is
  "Severe Stress / Bare Soil", from 0.2 and below 0.4 "Stressed Vegetation", from 0.4 and
  below 0.6 "Moderate Health", from 0.6 and below 0.8 "Healthy", from 0.8 on
  "Very Healthy".  So 0.2 is "Stressed Vegetation", 0.8 is "Very Healthy", the result is
  always one of the five labels and never the placeholder "Unknown"; and the label of
  every successful statistics response is this function of the mean it reports.
\<close>

theorem health_status_total:
  "(m < 0.2 \<longrightarrow> health_status_of m = ''Severe Stress / Bare Soil'') \<and>
   (0.2 \<le> m \<and> m < 0.4 \<longrightarrow> health_status_of m = ''Stressed Vegetation'') \<and>
   (0.4 \<le> m \<and> m < 0.6 \<longrightarrow> health_status_of m = ''Moderate Health'') \<and>
   (0.6 \<le> m \<and> m < 0.8 \<longrightarrow> health_status_of m = ''Healthy'') \<and>
   (0.8 \<le> m \<longrightarrow> health_status_of m = ''Very Healthy'') \<and>
   health_status_of 0.2 = ''Stressed Vegetation'' \<and>
   health_status_of 0.8 = ''Very Healthy'' \<and>
   health_status_of m \<noteq> ''Unknown'' \<and>
   health_status_of m \<in> {''Severe Stress / Bare Soil'', ''Stressed Vegetation'',
      ''Moderate Health'', ''Healthy'', ''Very Healthy''} \<and>
   (\<forall>E r resp t. get_ndvi_stats E r = (Inr resp, t) \<longrightarrow>
      (\<exists>st mean. ndvi_stats resp = Some st \<and> st ''mean_ndvi'' = Some (Num mean)
          \<and> st ''health_status'' = Some (Str (health_status_of mean))))"
proof -
  have "\<exists>st mean. ndvi_stats resp = Some st \<and> st ''mean_ndvi'' = Some (Num mean)
          \<and> st ''health_status'' = Some (Str (health_status_of mean))"
    if "get_ndvi_stats E r = (Inr resp, t)" for E r resp t
    using get_ndvi_stats_success [OF that] by auto
  then show ?thesis
    by (simp add: health_status_of_def)
qed

theorem health_status_total_witness:
  "health_status_of 0.1 = ''Severe Stress / Bare Soil'' \<and>
   health_status_of 0.3 = ''Stressed Vegetation'' \<and>
   health_status_of 0.5 = ''Moderate Health'' \<and>
   health_status_of 0.7 = ''Healthy'' \<and>
   health_status_of 0.9 = ''Very Healthy'' \<and>
   (\<exists>resp t st mean. get_ndvi_stats fixture_env fixture_request = (Inr resp, t)
       \<and> ndvi_stats resp = Some st \<and> st ''mean_ndvi'' = Some (Num mean)
       \<and> st ''health_status'' = Some (Str (health_status_of mean)))"
proof -
  obtain resp t where e: "get_ndvi_stats fixture_env fixture_request = (Inr resp, t)"
    using fixture_stats_succeeds by blast
  have "\<exists>st mean. ndvi_stats resp = Some st \<and> st ''mean_ndvi'' = Some (Num mean)
          \<and> st ''health_status'' = Some (Str (health_status_of mean))"
    using health_status_total [of 0] e by blast
  then have link: "\<exists>resp t st mean. get_ndvi_stats fixture_env fixture_request = (Inr resp, t)
       \<and> ndvi_stats resp = Some st \<and> st ''mean_ndvi'' = Some (Num mean)
       \<and> st ''health_status'' = Some (Str (health_status_of mean))"
    using e by blast
  have "health_status_of 0.1 = ''Severe Stress / Bare Soil''"
    using health_status_total [of "0.1"] by simp
  moreover have "health_status_of 0.3 = ''Stressed Vegetation''"
    using health_status_total [of "0.3"] by simp
  moreover have "health_status_of 0.5 = ''Moderate Health''"
    using health_status_total [of "0.5"] by simp
  moreover have "health_status_of 0.7 = ''Healthy''"
    using health_status_total [of "0.7"] by simp
  moreover have "health_status_of 0.9 = ''Very Healthy''"
    using health_status_total [of "0.9"] by simp
  ultimately show ?thesis using link by blast
qed

section \<open>Failures inside the extractor\<close>

text \<open>
  C2.  What the code does when the filtered collection is empty: the size query is the
  only call logged, so nothing is composited, and the status 404 raised at line 58 is
  caught by the handler of line 95 and leaves the helper as status 500 with the 404 text
  inside the detail.  The client therefore sees the generic computation error, not a
  distinct "no imagery" error.
\<close>

theorem empty_collection_reported_as_500:
  assumes "get_ndvi_image_url E lat lon b d c = (r, t)"
      and "size_getInfo coll \<in> set t"
      and "ee_size E coll = Inr 0"
  shows "r = Inl (HTTPException 500 (''Error processing NDVI: '' @ str_exc E
              (HTTPException 404
                 ''No suitable Sentinel-2 images found for the specified criteria'')))
         \<and> t = [size_getInfo coll]"
  using assms unfolding helper_defs
  by (auto split: sum.splits if_splits)

theorem empty_collection_reported_as_500_witness:
  "get_ndvi_stats fixture_env_empty fixture_request =
     (Inl (HTTPException 500
        ''Error processing NDVI: 404: No suitable Sentinel-2 images found for the specified criteria''),
      [size_getInfo
         (s2_collection_of (aoi_of 40 (-100) (Some 50)) ''2026-08-05'' ''2026-11-03'' (Some 20))])"
proof -
  let ?coll = "s2_collection_of (aoi_of 40 (-100) (Some 50)) ''2026-08-05'' ''2026-11-03'' (Some 20)"
  let ?run = "get_ndvi_image_url fixture_env_empty 40 (-100) (Some 50) (Some 90) (Some 20)"
  have run: "?run = (fst ?run, snd ?run)" by simp
  have mem: "size_getInfo ?coll \<in> set (snd ?run)"
    by (simp add: eval_defs fixture_defs)
  have emp: "ee_size fixture_env_empty ?coll = Inr 0"
    by (simp add: fixture_defs)
  have "fst ?run = Inl (HTTPException 500 (''Error processing NDVI: '' @ str_exc fixture_env_empty
              (HTTPException 404
                 ''No suitable Sentinel-2 images found for the specified criteria'')))
        \<and> snd ?run = [size_getInfo ?coll]"
    using empty_collection_reported_as_500 [OF run mem emp] .
  then have "?run = (Inl (HTTPException 500
        ''Error processing NDVI: 404: No suitable Sentinel-2 images found for the specified criteria''),
      [size_getInfo ?coll])"
    by (simp add: prod_eq_iff fixture_defs)
  then show ?thesis
    by (simp add: stats_defs fixture_request_def)
qed

text \<open>
  C4.  What the code does when the composite lacks B8 or B4: the size and band-name
  queries are the only calls logged, so the index is never requested, and the status 400
  raised at line 64 is caught by the handler of line 95 and leaves the helper as status
  500 with the 400 text inside the detail.
\<close>

theorem missing_bands_reported_as_500:
  assumes "get_ndvi_image_url E lat lon b d c = (r, t)"
      and "bandNames_getInfo s2 \<in> set t"
      and "ee_bandNames E s2 = Inr band_names"
      and "''B8'' \<notin> set band_names \<or> ''B4'' \<notin> set band_names"
  shows "r = Inl (HTTPException 500 (''Error processing NDVI: '' @ str_exc E
              (HTTPException 400 ''Required bands (B4 and B8) not found in the image'')))
         \<and> (\<exists>coll. t = [size_getInfo coll, bandNames_getInfo s2])"
  using assms unfolding helper_defs
  by (auto split: sum.splits if_splits)

theorem missing_bands_reported_as_500_witness:
  "fst (generate_ndvi_image fixture_env_no_nir fixture_request) =
     Inl (HTTPException 500
        ''Error processing NDVI: 400: Required bands (B4 and B8) not found in the image'')
   \<and> length (snd (generate_ndvi_image fixture_env_no_nir fixture_request)) = 2"
proof -
  let ?aoi = "aoi_of 40 (-100) (Some 50)"
  let ?s2 = "s2_of (s2_collection_of ?aoi ''2026-08-05'' ''2026-11-03'' (Some 20)) ?aoi"
  let ?run = "get_ndvi_image_url fixture_env_no_nir 40 (-100) (Some 50) (Some 90) (Some 20)"
  have run: "?run = (fst ?run, snd ?run)" by simp
  have mem: "bandNames_getInfo ?s2 \<in> set (snd ?run)"
    by (simp add: eval_defs fixture_defs)
  have bn: "ee_bandNames fixture_env_no_nir ?s2 = Inr [''B2'', ''B3'', ''B4'']"
    by (simp add: fixture_defs)
  have lack: "''B8'' \<notin> set [''B2'', ''B3'', ''B4''] \<or> ''B4'' \<notin> set [''B2'', ''B3'', ''B4'']"
    by simp
  have "fst ?run = Inl (HTTPException 500 (''Error processing NDVI: '' @ str_exc fixture_env_no_nir
              (HTTPException 400 ''Required bands (B4 and B8) not found in the image'')))
        \<and> (\<exists>coll. snd ?run = [size_getInfo coll, bandNames_getInfo ?s2])"
    using missing_bands_reported_as_500 [OF run mem bn lack] .
  then obtain coll where
    "?run = (Inl (HTTPException 500
        ''Error processing NDVI: 400: Required bands (B4 and B8) not found in the image''),
      [size_getInfo coll, bandNames_getInfo ?s2])"
    by (auto simp add: prod_eq_iff fixture_defs)
  then show ?thesis
    by (simp add: generate_ndvi_image_def generate_ndvi_image_try_def endpoint_handler_def
          fixture_request_def)
qed

section \<open>Coordinate validation\<close>

text \<open>
  C5.  A request whose latitude is outside [-90, 90] or whose longitude is outside
  [-180, 180] is answered by both endpoints with status 400, and the log of remote calls
  is empty: no catalog query, no statistics, no thumbnail, no download.
\<close>

theorem invalid_coordinates_rejected:
  assumes "latitude r < -90 \<or> 90 < latitude r \<or> longitude r < -180 \<or> 180 < longitude r"
  shows "\<exists>m. generate_ndvi_image E r = (Inl (HTTPException 400 m), [])
           \<and> get_ndvi_stats E r = (Inl (HTTPException 400 m), [])"
  using assms
  unfolding generate_ndvi_image_def generate_ndvi_image_try_def get_ndvi_stats_def
    get_ndvi_stats_try_def endpoint_handler_def
  by auto

theorem invalid_coordinates_rejected_witness:
  "(\<exists>m. generate_ndvi_image fixture_env (fixture_request\<lparr> latitude := 95 \<rparr>)
            = (Inl (HTTPException 400 m), [])
       \<and> get_ndvi_stats fixture_env (fixture_request\<lparr> latitude := 95 \<rparr>)
            = (Inl (HTTPException 400 m), []))
   \<and> (\<exists>m. generate_ndvi_image fixture_env (fixture_request\<lparr> longitude := 200 \<rparr>)
            = (Inl (HTTPException 400 m), [])
       \<and> get_ndvi_stats fixture_env (fixture_request\<lparr> longitude := 200 \<rparr>)
            = (Inl (HTTPException 400 m), []))"
proof -
  have a: "latitude (fixture_request\<lparr> latitude := 95 \<rparr>) < -90
        \<or> 90 < latitude (fixture_request\<lparr> latitude := 95 \<rparr>)
        \<or> longitude (fixture_request\<lparr> latitude := 95 \<rparr>) < -180
        \<or> 180 < longitude (fixture_request\<lparr> latitude := 95 \<rparr>)"
    by (simp add: fixture_request_def)
  have b: "latitude (fixture_request\<lparr> longitude := 200 \<rparr>) < -90
        \<or> 90 < latitude (fixture_request\<lparr> longitude := 200 \<rparr>)
        \<or> longitude (fixture_request\<lparr> longitude := 200 \<rparr>) < -180
        \<or> 180 < longitude (fixture_request\<lparr> longitude := 200 \<rparr>)"
    by (simp add: fixture_request_def)
  show ?thesis
    using invalid_coordinates_rejected [OF a, of fixture_env]
      invalid_coordinates_rejected [OF b, of fixture_env]
    by blast
qed

section \<open>The raster normalizer\<close>




section \<open>Zonal statistics and rendering\<close>

text \<open>
  C6.  Every zonal reduction the helper requests is over the area of interest, on the
  NDVI raster, at scale 10 with at most 10^9 pixels, with the one combined reducer
  mean + (minMax + stdDev) whose parts share their inputs; at most one such request is
  made per call, and the statistics of a successful call are the answer to it.
\<close>

theorem zonal_reduction_parameters:
  assumes "get_ndvi_image_url E lat lon b d c = (r, t)"
  shows "(\<forall>x\<in>set t. \<forall>im red g sc mp. x = reduceRegion_getInfo im red g sc mp \<longrightarrow>
            red = combine Reducer_mean (combine Reducer_minMax Reducer_stdDev True) True
            \<and> sc = 10 \<and> mp = 10 ^ 9 \<and> g = aoi_of lat lon b
            \<and> (\<exists>coll. im = ndvi_of (s2_of coll g)))
         \<and> length (filter is_reduceRegion t) \<le> 1
         \<and> (\<forall>url stats. r = Inr (url, stats) \<longrightarrow>
              (\<exists>im. reduceRegion_getInfo im
                        (combine Reducer_mean (combine Reducer_minMax Reducer_stdDev True) True)
                        (aoi_of lat lon b) 10 (10 ^ 9) \<in> set t
                 \<and> ee_reduceRegion E im
                        (combine Reducer_mean (combine Reducer_minMax Reducer_stdDev True) True)
                        (aoi_of lat lon b) 10 (10 ^ 9) = Inr stats))"
  using assms unfolding helper_defs stats_reducer_def
  by (auto split: sum.splits if_splits)

theorem zonal_reduction_parameters_witness:
  "\<exists>url stats t im.
      get_ndvi_image_url fixture_env 40 (-100) (Some 50) (Some 90) (Some 20)
        = (Inr (url, stats), t)
      \<and> reduceRegion_getInfo im
           (combine Reducer_mean (combine Reducer_minMax Reducer_stdDev True) True)
           (aoi_of 40 (-100) (Some 50)) 10 (10 ^ 9) \<in> set t
      \<and> ee_reduceRegion fixture_env im
           (combine Reducer_mean (combine Reducer_minMax Reducer_stdDev True) True)
           (aoi_of 40 (-100) (Some 50)) 10 (10 ^ 9) = Inr stats
      \<and> length (filter is_reduceRegion t) \<le> 1"
proof -
  have "\<exists>url stats t. get_ndvi_image_url fixture_env 40 (-100) (Some 50) (Some 90) (Some 20)
          = (Inr (url, stats), t)"
    by (simp add: eval_defs fixture_defs)
  then obtain url stats t where
    r: "get_ndvi_image_url fixture_env 40 (-100) (Some 50) (Some 90) (Some 20)
          = (Inr (url, stats), t)"
    by blast
  show ?thesis
    using zonal_reduction_parameters [OF r] r by blast
qed

text \<open>
  C8.  Every thumbnail the image endpoint requests is rendered with the same
  visualization parameters: range 0.0 to 1.0, the palette red, orange, yellow, green,
  darkgreen, dimensions "800x600", format "png".  Changing the requested image width and
  height changes none of the remote calls, and a successful response carries exactly what
  \<open>download_and_convert_image\<close> made of the thumbnail at the requested width and height.
\<close>

theorem vis_params_independent_of_request:
  "(\<forall>x\<in>set (snd (generate_ndvi_image E r)). \<forall>im vp. x = getThumbURL im vp \<longrightarrow>
       vp = \<lparr> vis_min = 0, vis_max = 1,
              vis_palette = [''red'', ''orange'', ''yellow'', ''green'', ''darkgreen''],
              vis_dimensions = ''800x600'', vis_format = ''png'' \<rparr>)
   \<and> snd (generate_ndvi_image E (r\<lparr> image_width := w, image_height := h \<rparr>))
       = snd (generate_ndvi_image E r)
   \<and> (\<forall>resp t. generate_ndvi_image E r = (Inr resp, t) \<longrightarrow>
        (\<exists>url stats t1.
            get_ndvi_image_url E (latitude r) (longitude r) (buffer_distance r) (days_back r)
              (cloud_threshold r) = (Inr (url, stats), t1)
            \<and> download_and_convert_image E url (image_width r) (image_height r)
                = (Inr (body resp), [requests_get url 30])
            \<and> t = t1 @ [requests_get url 30]))"
proof (intro conjI ballI allI impI)
  fix x im vp
  assume x: "x \<in> set (snd (generate_ndvi_image E r))" and e: "x = getThumbURL im vp"
  obtain res t0 where
    g: "get_ndvi_image_url E (latitude r) (longitude r) (buffer_distance r) (days_back r)
          (cloud_threshold r) = (res, t0)"
    by fastforce
  have "getThumbURL im vp \<in> set t0"
  proof (cases res)
    case (Inl err)
    then show ?thesis
      using x e g unfolding generate_log by (auto split: if_splits)
  next
    case (Inr p)
    obtain url stats where "p = (url, stats)" by (cases p)
    with Inr show ?thesis
      using x e g unfolding generate_log by (auto split: if_splits)
  qed
  then have "getThumbURL im vp \<in> set (snd (get_ndvi_image_url E (latitude r) (longitude r)
          (buffer_distance r) (days_back r) (cloud_threshold r)))"
    using g by simp
  from get_ndvi_image_url_thumb [OF this]
  show "vp = \<lparr> vis_min = 0, vis_max = 1,
              vis_palette = [''red'', ''orange'', ''yellow'', ''green'', ''darkgreen''],
              vis_dimensions = ''800x600'', vis_format = ''png'' \<rparr>"
    by (simp add: the_vis_params_def)
next
  show "snd (generate_ndvi_image E (r\<lparr> image_width := w, image_height := h \<rparr>))
       = snd (generate_ndvi_image E r)"
    unfolding generate_log by simp
next
  fix resp t
  assume s: "generate_ndvi_image E r = (Inr resp, t)"
  show "\<exists>url stats t1.
            get_ndvi_image_url E (latitude r) (longitude r) (buffer_distance r) (days_back r)
              (cloud_threshold r) = (Inr (url, stats), t1)
            \<and> download_and_convert_image E url (image_width r) (image_height r)
                = (Inr (body resp), [requests_get url 30])
            \<and> t = t1 @ [requests_get url 30]"
    using s download_log
    unfolding generate_ndvi_image_def generate_ndvi_image_try_def endpoint_handler_def
    by (auto split: if_splits prod.splits sum.splits exc.splits simp: prod_eq_iff)
qed

theorem vis_params_independent_of_request_witness:
  "\<exists>im vp. getThumbURL im vp \<in> set (snd (generate_ndvi_image fixture_env fixture_request))
      \<and> vp = \<lparr> vis_min = 0, vis_max = 1,
               vis_palette = [''red'', ''orange'', ''yellow'', ''green'', ''darkgreen''],
               vis_dimensions = ''800x600'', vis_format = ''png'' \<rparr>
      \<and> snd (generate_ndvi_image fixture_env
               (fixture_request\<lparr> image_width := Some 400, image_height := Some 300 \<rparr>))
          = snd (generate_ndvi_image fixture_env fixture_request)"
proof -
  note T = vis_params_independent_of_request
    [where E = fixture_env and r = fixture_request and w = "Some 400" and h = "Some 300"]
  have c1: "\<forall>x\<in>set (snd (generate_ndvi_image fixture_env fixture_request)).
              \<forall>im vp. x = getThumbURL im vp \<longrightarrow>
                vp = \<lparr> vis_min = 0, vis_max = 1,
                       vis_palette = [''red'', ''orange'', ''yellow'', ''green'', ''darkgreen''],
                       vis_dimensions = ''800x600'', vis_format = ''png'' \<rparr>"
    using T by (rule conjunct1)
  have c2: "snd (generate_ndvi_image fixture_env
               (fixture_request\<lparr> image_width := Some 400, image_height := Some 300 \<rparr>))
          = snd (generate_ndvi_image fixture_env fixture_request)"
    using T [THEN conjunct2] by (rule conjunct1)
  have "\<exists>im vp. getThumbURL im vp \<in> set (snd (generate_ndvi_image fixture_env fixture_request))"
    unfolding generate_log
    by (simp add: eval_defs fixture_defs)
  then obtain im vp where
    m: "getThumbURL im vp \<in> set (snd (generate_ndvi_image fixture_env fixture_request))"
    by (elim exE)
  have v: "vp = \<lparr> vis_min = 0, vis_max = 1,
               vis_palette = [''red'', ''orange'', ''yellow'', ''green'', ''darkgreen''],
               vis_dimensions = ''800x600'', vis_format = ''png'' \<rparr>"
    using bspec [OF c1 m, THEN spec, THEN spec, of im vp] by (rule mp) (rule refl)
  show ?thesis
    by (rule exI [of _ im], rule exI [of _ vp], intro conjI, rule m, rule v, rule c2)
qed

section \<open>The statistics response\<close>




text \<open>
  C9, as the code has it.  In a successful statistics response each of min_ndvi, max_ndvi
  and std_ndvi is 0 when the provider's dictionary has no entry under its name, and the
  provider's value unchanged when it has one, each on its own; mean_ndvi is a number.
\<close>

theorem missing_statistics_default_to_zero:
  assumes "get_ndvi_stats E r = (Inr resp, t)"
  shows "\<exists>url stats st.
           get_ndvi_image_url E (latitude r) (longitude r) (buffer_distance r) (days_back r)
             (cloud_threshold r) = (Inr (url, stats), t)
           \<and> ndvi_stats resp = Some st
           \<and> st ''min_ndvi'' = Some (case stats ''NDVI_min'' of None \<Rightarrow> Num 0 | Some v \<Rightarrow> v)
           \<and> st ''max_ndvi'' = Some (case stats ''NDVI_max'' of None \<Rightarrow> Num 0 | Some v \<Rightarrow> v)
           \<and> st ''std_ndvi'' = Some (case stats ''NDVI_stdDev'' of None \<Rightarrow> Num 0 | Some v \<Rightarrow> v)
           \<and> (\<exists>a. st ''mean_ndvi'' = Some (Num a))"
  using get_ndvi_stats_success [OF assms]
  by (auto simp: dict_get_def)

theorem missing_statistics_default_to_zero_witness:
  "\<exists>resp t st. get_ndvi_stats fixture_env_sparse fixture_request = (Inr resp, t)
      \<and> ndvi_stats resp = Some st
      \<and> st ''min_ndvi'' = Some (Num 0)
      \<and> st ''max_ndvi'' = Some (Num 0.9)
      \<and> st ''std_ndvi'' = Some (Num 0)"
proof -
  obtain resp t where
    s: "get_ndvi_stats fixture_env_sparse fixture_request = (Inr resp, t)"
    using fixture_sparse_stats_succeeds by blast
  from missing_statistics_default_to_zero [OF s] obtain url stats st where
    h: "get_ndvi_image_url fixture_env_sparse (latitude fixture_request)
          (longitude fixture_request) (buffer_distance fixture_request)
          (days_back fixture_request) (cloud_threshold fixture_request) = (Inr (url, stats), t)"
    and st: "ndvi_stats resp = Some st"
       "st ''min_ndvi'' = Some (case stats ''NDVI_min'' of None \<Rightarrow> Num 0 | Some v \<Rightarrow> v)"
       "st ''max_ndvi'' = Some (case stats ''NDVI_max'' of None \<Rightarrow> Num 0 | Some v \<Rightarrow> v)"
       "st ''std_ndvi'' = Some (case stats ''NDVI_stdDev'' of None \<Rightarrow> Num 0 | Some v \<Rightarrow> v)"
    by blast
  have "stats = [''NDVI_max'' \<mapsto> Num 0.9]"
    using h fixture_sparse_helper by (simp add: fixture_request_def)
  with st have "st ''min_ndvi'' = Some (Num 0)" "st ''max_ndvi'' = Some (Num 0.9)"
    "st ''std_ndvi'' = Some (Num 0)"
    by simp_all
  with s st(1) show ?thesis by blast
qed

text \<open>
  C9 as stated fails: with a numeric mean and the minimum's name present with value
  \<open>None\<close>, the statistics endpoint succeeds and the response carries min_ndvi \<open>None\<close>, which
  is not a number.
\<close>

theorem null_min_counterexample:
  "\<not> isl (fst (get_ndvi_stats fixture_env_null_min fixture_request))
   \<and> ndvi_stats (projr (fst (get_ndvi_stats fixture_env_null_min fixture_request))) \<noteq> None
   \<and> the (ndvi_stats (projr (fst (get_ndvi_stats fixture_env_null_min fixture_request))))
        ''min_ndvi'' = Some NoneVal"
  by (simp add: eval_defs fixture_defs)

text \<open>
  C10.  A successful statistics response has status "success", repeats the request's
  latitude, longitude and buffer distance under location, and the request's days_back as
  analysis_period_days.
\<close>

theorem stats_response_echoes_request:
  assumes "get_ndvi_stats E r = (Inr resp, t)"
  shows "status resp = ''success''
         \<and> location resp ''latitude'' = Some (Num (latitude r))
         \<and> location resp ''longitude'' = Some (Num (longitude r))
         \<and> location resp ''buffer_distance_m'' = Some (opt_int (buffer_distance r))
         \<and> (\<exists>st. ndvi_stats resp = Some st
               \<and> st ''analysis_period_days'' = Some (opt_int (days_back r)))"
  using get_ndvi_stats_success [OF assms]
  by auto

theorem stats_response_echoes_request_witness:
  "\<exists>resp t st. get_ndvi_stats fixture_env fixture_request = (Inr resp, t)
      \<and> status resp = ''success''
      \<and> location resp ''latitude'' = Some (Num 40)
      \<and> location resp ''longitude'' = Some (Num (-100))
      \<and> location resp ''buffer_distance_m'' = Some (Num 50)
      \<and> ndvi_stats resp = Some st
      \<and> st ''analysis_period_days'' = Some (Num 90)"
proof -
  obtain resp t where
    s: "get_ndvi_stats fixture_env fixture_request = (Inr resp, t)"
    using fixture_stats_succeeds by (elim exE)
  note T = stats_response_echoes_request [OF s]
  have f: "latitude fixture_request = 40" "longitude fixture_request = -100"
    "opt_int (buffer_distance fixture_request) = Num 50"
    "opt_int (days_back fixture_request) = Num 90"
    by (simp_all add: fixture_request_def)
  from T have a: "status resp = ''success''" by (rule conjunct1)
  from T have b: "location resp ''latitude'' = Some (Num 40)"
    unfolding f by (elim conjE)
  from T have c: "location resp ''longitude'' = Some (Num (-100))"
    unfolding f by (elim conjE)
  from T have d: "location resp ''buffer_distance_m'' = Some (Num 50)"
    unfolding f by (elim conjE)
  from T obtain st where
    e: "ndvi_stats resp = Some st" "st ''analysis_period_days'' = Some (Num 90)"
    unfolding f by (elim conjE exE)
  show ?thesis
    by (rule exI [of _ resp], rule exI [of _ t], rule exI [of _ st], intro conjI,
        rule s, rule a, rule b, rule c, rule d, rule e(1), rule e(2))
qed

end
